theory Spec2Isabelle
  imports Complex_Main
begin

section \<open>Values shared by the modules\<close>

text \<open>
  Atoms are JavaScript objects compared with \<^verbatim>\<open>===\<close>, that is by identity.  An atom
  reference is modelled by a natural number; inside a molecule it is the position of the
  atom in the molecule's atom array.

  Reading a JavaScript array outside its bounds gives \<^verbatim>\<open>undefined\<close>; \<open>js_index\<close>
  returns \<open>None\<close> for it.  The index is an integer because the source computes
  \<^verbatim>\<open>length - 1\<close>, which is \<open>-1\<close> on an empty array.
\<close>

type_synonym atom_ref = nat

definition js_index :: "'a list \<Rightarrow> int \<Rightarrow> 'a option" where
  "js_index xs i = (if 0 \<le> i \<and> i < int (length xs) then Some (xs ! nat i) else None)"

datatype error = MoleculeNotConnected | NoIntersection

section \<open>ring/path\_edge.js\<close>

datatype RingPathEdge = RingPathEdge (edge_atoms: "atom_ref list")


text \<open>
  \<^verbatim>\<open>RingPathEdge.prototype.isRealPath\<close>: two nested loops over the positions
  \<open>1 \<le> i, j < il\<close> with \<open>il = length - 1\<close>.  \<open>isRealPath_inner\<close> is the loop over
  \<open>j\<close>; it yields \<open>False\<close> where the source executes \<^verbatim>\<open>return false\<close>.
\<close>

function isRealPath_inner :: "atom_ref list \<Rightarrow> int \<Rightarrow> int \<Rightarrow> int \<Rightarrow> bool" where
  "isRealPath_inner as il i j =
     (if j < il then
        (if i = j then isRealPath_inner as il i (j + 1)
         else if js_index as i = js_index as j then False
         else isRealPath_inner as il i (j + 1))
      else True)"
  by pat_completeness auto
termination
  by (relation "measure (\<lambda>(as, il, i, j). nat (il - j))") auto

function isRealPath_outer :: "atom_ref list \<Rightarrow> int \<Rightarrow> int \<Rightarrow> bool" where
  "isRealPath_outer as il i =
     (if i < il then
        (if isRealPath_inner as il i 1 then isRealPath_outer as il (i + 1) else False)
      else True)"
  by pat_completeness auto
termination
  by (relation "measure (\<lambda>(as, il, i). nat (il - i))") auto

definition isRealPath :: "atom_ref list \<Rightarrow> bool" where
  "isRealPath as = isRealPath_outer as (int (length as) - 1) 1"

text \<open>\<^verbatim>\<open>RingPathEdge.prototype.getIntersection\<close>; the result may be \<^verbatim>\<open>undefined\<close>
  (\<open>None\<close>) when both arrays are empty.\<close>

definition getIntersection :: "RingPathEdge \<Rightarrow> atom_ref list \<Rightarrow> error + atom_ref option" where
  "getIntersection this others =
     (let lastAtomPos = int (length (edge_atoms this)) - 1;
          lastOtherPos = int (length others) - 1
      in if js_index (edge_atoms this) lastAtomPos = js_index others 0 \<or>
            js_index (edge_atoms this) lastAtomPos = js_index others lastOtherPos
         then Inr (js_index (edge_atoms this) lastAtomPos)
         else if js_index (edge_atoms this) 0 = js_index others 0 \<or>
                 js_index (edge_atoms this) 0 = js_index others lastOtherPos
         then Inr (js_index (edge_atoms this) 0)
         else Inl NoIntersection)"

text \<open>
  The three \<^verbatim>\<open>push\<close> loops of \<^verbatim>\<open>splice\<close>: \<open>push_up src i acc\<close> appends
  \<open>src[i], src[i+1], \<dots>\<close> to \<open>acc\<close>, \<open>push_down src i acc\<close> appends
  \<open>src[i], src[i-1], \<dots>, src[0]\<close>.
\<close>

function push_up :: "atom_ref list \<Rightarrow> nat \<Rightarrow> atom_ref list \<Rightarrow> atom_ref list" where
  "push_up src i acc =
     (if i < length src then push_up src (i + 1) (acc @ [src ! i]) else acc)"
  by pat_completeness auto
termination
  by (relation "measure (\<lambda>(src, i, acc). length src - i)") auto

function push_down :: "atom_ref list \<Rightarrow> int \<Rightarrow> atom_ref list \<Rightarrow> atom_ref list" where
  "push_down src i acc =
     (if i \<ge> 0 then push_down src (i - 1) (acc @ [src ! nat i]) else acc)"
  by pat_completeness auto
termination
  by (relation "measure (\<lambda>(src, i, acc). nat (i + 1))") auto

text \<open>\<^verbatim>\<open>RingPathEdge.prototype.splice\<close>: \<open>Inl\<close> is the thrown error, \<open>Inr None\<close> the
  \<^verbatim>\<open>null\<close> result.\<close>

definition splice :: "RingPathEdge \<Rightarrow> RingPathEdge \<Rightarrow> error + RingPathEdge option" where
  "splice this other =
     (case getIntersection this (edge_atoms other) of
        Inl e \<Rightarrow> Inl e
      | Inr intersection \<Rightarrow>
          (let newAtoms = push_up (edge_atoms this) 0 [];
               newAtoms = (if js_index (edge_atoms this) 0 = intersection
                           then rev newAtoms else newAtoms);
               newAtoms = (if js_index (edge_atoms other) 0 = intersection
                           then push_up (edge_atoms other) 1 newAtoms
                           else push_down (edge_atoms other)
                                  (int (length (edge_atoms other)) - 2) newAtoms)
           in if \<not> isRealPath newAtoms then Inr None
              else Inr (Some (RingPathEdge newAtoms))))"





text \<open>
  The first and the last atom of a path edge as the source reads them
  (\<^verbatim>\<open>atoms[0]\<close> and \<^verbatim>\<open>atoms[atoms.length - 1]\<close>, \<^verbatim>\<open>undefined\<close> on an empty array), and
  the condition that two path edges have an endpoint in common.
\<close>

definition first_atom :: "RingPathEdge \<Rightarrow> atom_ref option" where
  "first_atom e = js_index (edge_atoms e) 0"

definition last_atom :: "RingPathEdge \<Rightarrow> atom_ref option" where
  "last_atom e = js_index (edge_atoms e) (int (length (edge_atoms e)) - 1)"

definition share_endpoint :: "RingPathEdge \<Rightarrow> RingPathEdge \<Rightarrow> bool" where
  "share_endpoint p q \<longleftrightarrow>
     last_atom p = first_atom q \<or> last_atom p = last_atom q \<or>
     first_atom p = first_atom q \<or> first_atom p = last_atom q"

section \<open>The graph model\<close>

text \<open>
  \<^verbatim>\<open>MathCoordinate\<close> is the class of \<^verbatim>\<open>math/coordinate.js\<close>: its two fields \<^verbatim>\<open>x\<close> and
  \<^verbatim>\<open>y\<close>.  The code modelled here only stores and copies coordinates.

  Modelled from the spec: the flag, atom and molecule types of \<^verbatim>\<open>model/flags.js\<close>,
  \<^verbatim>\<open>model/atom.js\<close> and \<^verbatim>\<open>model/molecule.js\<close>, which are not among the sources
  (\<^verbatim>\<open>model/bond.js\<close> and the ring class are).  The types hold the fields that the layout
  code reads and writes: an atom has a nullable coordinate and the four flags PLACED,
  VISITED, IN\_RING and ALIPHATIC; a molecule is a sequence of atoms, a sequence of bonds
  and a fragment count.  The atom has the field \<^verbatim>\<open>coord\<close>, which is
  \<^verbatim>\<open>null\<close> (here \<open>None\<close>) until the atom is placed, and the array \<^verbatim>\<open>flags\<close>, whose
  entries are \<^verbatim>\<open>undefined\<close> (\<open>None\<close>) until they are written.  \<^verbatim>\<open>generate\<close> also
  assigns to a property \<^verbatim>\<open>coords\<close> of an atom; an assignment to a property that an
  object does not have creates it, so the atom record has the field \<open>coords\<close> as well,
  \<open>None\<close> while the property is absent.
\<close>

datatype MathCoordinate = MathCoordinate (coord_x: real) (coord_y: real)

datatype modelFlags = ISPLACED | VISITED | ISINRING | ISALIPHATIC

record ModelAtom =
  coord :: "MathCoordinate option"
  coords :: "MathCoordinate option"
  flags :: "modelFlags \<Rightarrow> bool option"

text \<open>\<^verbatim>\<open>model/bond.js\<close>: the two ends of a bond are atoms of the molecule.\<close>

record ModelBond =
  source :: atom_ref
  target :: atom_ref

text \<open>\<^verbatim>\<open>ModelBond.prototype.otherAtom\<close>\<close>

definition otherAtom :: "ModelBond \<Rightarrow> atom_ref \<Rightarrow> atom_ref option" where
  "otherAtom this atom =
     (if atom = source this then Some (target this)
      else if atom = target this then Some (source this)
      else None)"

record ModelMolecule =
  atoms :: "ModelAtom list"
  bonds :: "ModelBond list"
  fragmentCount :: nat

text \<open>
  Modelled from the spec: \<^verbatim>\<open>countAtoms\<close> and \<^verbatim>\<open>countBonds\<close> of
  \<^verbatim>\<open>model/molecule.js\<close>, the lengths of the molecule's atom and bond sequences.
\<close>

definition countAtoms :: "ModelMolecule \<Rightarrow> nat" where
  "countAtoms molecule = length (atoms molecule)"

definition countBonds :: "ModelMolecule \<Rightarrow> nat" where
  "countBonds molecule = length (bonds molecule)"

text \<open>
  Modelled from the spec: \<^verbatim>\<open>setFlag\<close> of \<^verbatim>\<open>model/atom.js\<close>; it stores the value in
  the flag array, as \<^verbatim>\<open>RingRing.prototype.setFlag\<close> below does.
\<close>

definition setFlag :: "modelFlags \<Rightarrow> bool \<Rightarrow> ModelAtom \<Rightarrow> ModelAtom" where
  "setFlag flagType flagValue atom = atom\<lparr>flags := (flags atom)(flagType \<mapsto> flagValue)\<rparr>"

text \<open>
  A statement that mutates the atom object \<^verbatim>\<open>molecule.getAtom(f)\<close> replaces the atom at
  position \<open>f\<close> of the molecule.  The positions used by the code below are positions of the
  molecule's own atoms; at any other position the list update changes nothing.
\<close>

definition update_atom :: "atom_ref \<Rightarrow> (ModelAtom \<Rightarrow> ModelAtom) \<Rightarrow> ModelMolecule \<Rightarrow> ModelMolecule" where
  "update_atom f change molecule =
     molecule\<lparr>atoms := (atoms molecule)[f := change (atoms molecule ! f)]\<rparr>"

text \<open>
  The ring class (the \<^verbatim>\<open>RingRing\<close> constructor): atoms, bonds and a flag array.  Rings are
  compared by identity (\<^verbatim>\<open>ring1 !== ring2\<close>); \<open>ring_id\<close> is that identity.  The layout code
  also writes a property \<^verbatim>\<open>isPlaced\<close> on rings; it is absent, hence false as a condition,
  until written.
\<close>

record RingRing =
  ring_id :: nat
  ring_atoms :: "atom_ref list"
  ring_bonds :: "ModelBond list"
  ring_flags :: "modelFlags \<Rightarrow> bool option"
  isPlaced :: bool

section \<open>layout/coordinate\_generator.js\<close>

subsection \<open>generate: flag reset, single atom, connectivity check\<close>

text \<open>The body of the first loop of \<^verbatim>\<open>generate\<close>: four \<^verbatim>\<open>setFlag\<close> calls on one atom.\<close>

definition reset_flags :: "ModelAtom \<Rightarrow> ModelAtom" where
  "reset_flags atom =
     setFlag ISALIPHATIC False (setFlag ISINRING False (setFlag VISITED False
       (setFlag ISPLACED False atom)))"

text \<open>
  \<^verbatim>\<open>layoutCoordinateGenerator.generate\<close> up to the connectivity check.  The molecule is
  mutated in place, so a thrown error leaves the molecule as it is at that moment: \<open>Inl\<close>
  carries the error together with that molecule, \<open>Inr\<close> is the returned molecule.  The
  parameter \<open>layout\<close> is the rest of the function (ring detection, seeding, the alternation
  loop and overlap resolution), which runs on a connected molecule of another size than one.
\<close>

definition generate ::
  "(ModelMolecule \<Rightarrow> (error \<times> ModelMolecule) + ModelMolecule) \<Rightarrow> ModelMolecule \<Rightarrow>
   (error \<times> ModelMolecule) + ModelMolecule" where
  "generate layout molecule =
     (let atCount = countAtoms molecule;
          molecule = fold (\<lambda>f. update_atom f reset_flags) [0 ..< atCount] molecule
      in if atCount = 1
         then Inr (update_atom 0 (\<lambda>atom. atom\<lparr>coords := Some (MathCoordinate 0 0)\<rparr>) molecule)
         else if fragmentCount molecule > 1 then Inl (MoleculeNotConnected, molecule)
         else layout molecule)"

subsection \<open>generate: seeding with the largest ring set\<close>

text \<open>
  The first statement of the ring branch is
  \<^verbatim>\<open>sssr.forEach(function(ring) { ring.atoms.forEach, function(atom) {...}; });\<close>.
  The body of the callback is a comma expression: it reads the property
  \<^verbatim>\<open>ring.atoms.forEach\<close>, builds a function object and calls neither.  \<open>flag_ring\<close> is
  that callback, \<open>flagRingAtoms\<close> the \<^verbatim>\<open>forEach\<close> over the rings.
\<close>

definition flag_ring :: "RingRing \<Rightarrow> ModelMolecule \<Rightarrow> ModelMolecule" where
  "flag_ring ring molecule = molecule"

definition flagRingAtoms :: "RingRing list \<Rightarrow> ModelMolecule \<Rightarrow> ModelMolecule" where
  "flagRingAtoms sssr molecule = fold flag_ring sssr molecule"

text \<open>
  \<^verbatim>\<open>ringsets.sort(...)\<close> by the number of rings followed by \<^verbatim>\<open>utilsArray.last\<close>:
  the ring set placed first.  \<^verbatim>\<open>utils/array.js\<close> is not among the sources; the comparison
  is the numeric one and \<^verbatim>\<open>last\<close> of an empty array is \<^verbatim>\<open>undefined\<close>.
\<close>

definition largestRingset :: "RingRing list list \<Rightarrow> RingRing list option" where
  "largestRingset ringsets =
     (let sorted = sort_key length ringsets
      in js_index sorted (int (length sorted) - 1))"

subsection \<open>getMostComplexRing\<close>

text \<open>
  The function reads \<^verbatim>\<open>ring1[j]\<close> and \<^verbatim>\<open>ring2[l]\<close>, an indexed property of the ring
  object itself, not of its \<^verbatim>\<open>atoms\<close> array.  A ring object has the properties
  \<^verbatim>\<open>atoms\<close>, \<^verbatim>\<open>bonds\<close>, \<^verbatim>\<open>flags\<close> and \<^verbatim>\<open>_center\<close> only, so the value read is
  \<^verbatim>\<open>undefined\<close> for every index.
\<close>

definition ring_index :: "RingRing \<Rightarrow> nat \<Rightarrow> atom_ref option" where
  "ring_index ring j = None"

text \<open>
  The innermost loop, over \<open>l\<close>: \<open>True\<close> when some \<^verbatim>\<open>atom1 === atom2\<close> holds, where the
  source increments the two counters and leaves the loop with \<^verbatim>\<open>break\<close>.
\<close>

function found_in_ring :: "RingRing \<Rightarrow> atom_ref option \<Rightarrow> nat \<Rightarrow> bool" where
  "found_in_ring ring2 atom1 l =
     (if l < length (ring_atoms ring2) then
        (if atom1 = ring_index ring2 l then True else found_in_ring ring2 atom1 (l + 1))
      else False)"
  by pat_completeness auto
termination
  by (relation "measure (\<lambda>(ring2, atom1, l). length (ring_atoms ring2) - l)") auto

text \<open>The loops over \<open>k\<close>, \<open>j\<close> and \<open>i\<close>, each threading the array \<^verbatim>\<open>neighbors\<close>.\<close>

definition count_k :: "RingRing list \<Rightarrow> nat \<Rightarrow> atom_ref option \<Rightarrow> nat list \<Rightarrow> nat list" where
  "count_k ringSet i atom1 neighbors =
     fold (\<lambda>k nb.
             let ring1 = ringSet ! i; ring2 = ringSet ! k
             in if ring_id ring1 \<noteq> ring_id ring2 \<and> found_in_ring ring2 atom1 0
                then (let nb = nb[i := nb ! i + 1] in nb[k := nb ! k + 1])
                else nb)
          [i + 1 ..< length ringSet] neighbors"

definition count_j :: "RingRing list \<Rightarrow> nat \<Rightarrow> nat list \<Rightarrow> nat list" where
  "count_j ringSet i neighbors =
     fold (\<lambda>j nb. count_k ringSet i (ring_index (ringSet ! i) j) nb)
          [0 ..< length (ring_atoms (ringSet ! i))] neighbors"

definition count_neighbors :: "RingRing list \<Rightarrow> nat list" where
  "count_neighbors ringSet =
     fold (\<lambda>i nb. count_j ringSet i nb) [0 ..< length ringSet] (replicate (length ringSet) 0)"

text \<open>The last loop: the first position of the greatest counter.\<close>

definition most_complex_position :: "nat list \<Rightarrow> nat" where
  "most_complex_position neighbors =
     snd (fold (\<lambda>i (mostComplex, mostComplexPosition).
                  if neighbors ! i > mostComplex then (neighbors ! i, i)
                  else (mostComplex, mostComplexPosition))
               [0 ..< length neighbors] (0, 0))"

definition getMostComplexRing :: "RingRing list \<Rightarrow> RingRing option" where
  "getMostComplexRing ringSet =
     js_index ringSet (int (most_complex_position (count_neighbors ringSet)))"

text \<open>
  What the seed ring selection is meant to compute: for the ring at position \<open>i\<close>, the
  number of other rings of the set that have an atom in common with it.
\<close>

definition shares_atom :: "RingRing \<Rightarrow> RingRing \<Rightarrow> bool" where
  "shares_atom r1 r2 = (\<exists>a \<in> set (ring_atoms r1). a \<in> set (ring_atoms r2))"

definition shared_ring_count :: "RingRing list \<Rightarrow> nat \<Rightarrow> nat" where
  "shared_ring_count ringSet i =
     length (filter (\<lambda>k. k \<noteq> i \<and> shares_atom (ringSet ! i) (ringSet ! k)) [0 ..< length ringSet])"

section \<open>Example inputs\<close>

text \<open>
  Molecules and ring sets on which the functions are evaluated below: two atoms in two
  fragments, a single atom that already has a coordinate, a three-membered ring
  (cyclopropane) with its one ring, and a ring system of three rings of which the middle one
  shares one atom with each of the other two.
\<close>

definition two_fragments :: ModelMolecule where
  "two_fragments =
     \<lparr>atoms = [\<lparr>coord = None, coords = None, flags = (\<lambda>_. None)\<rparr>,
               \<lparr>coord = Some (MathCoordinate 1 2), coords = None, flags = (\<lambda>_. Some True)\<rparr>],
      bonds = [], fragmentCount = 2\<rparr>"

definition single_atom :: ModelMolecule where
  "single_atom =
     \<lparr>atoms = [\<lparr>coord = Some (MathCoordinate 3 4), coords = None, flags = (\<lambda>_. None)\<rparr>],
      bonds = [], fragmentCount = 1\<rparr>"

definition unplaced_atom :: ModelAtom where
  "unplaced_atom = \<lparr>coord = None, coords = None, flags = (\<lambda>_. None)\<rparr>"

definition cyclopropane :: ModelMolecule where
  "cyclopropane =
     \<lparr>atoms = [unplaced_atom, unplaced_atom, unplaced_atom],
      bonds = [\<lparr>source = 0, target = 1\<rparr>, \<lparr>source = 1, target = 2\<rparr>, \<lparr>source = 2, target = 0\<rparr>],
      fragmentCount = 1\<rparr>"

definition cyclopropane_ring :: RingRing where
  "cyclopropane_ring =
     \<lparr>ring_id = 0, ring_atoms = [0, 1, 2],
      ring_bonds = [\<lparr>source = 0, target = 1\<rparr>, \<lparr>source = 1, target = 2\<rparr>, \<lparr>source = 2, target = 0\<rparr>],
      ring_flags = (\<lambda>_. None), isPlaced = False\<rparr>"

definition three_rings :: "RingRing list" where
  "three_rings =
     [\<lparr>ring_id = 0, ring_atoms = [0, 1, 2], ring_bonds = [], ring_flags = (\<lambda>_. None), isPlaced = False\<rparr>,
      \<lparr>ring_id = 1, ring_atoms = [2, 3, 4], ring_bonds = [], ring_flags = (\<lambda>_. None), isPlaced = False\<rparr>,
      \<lparr>ring_id = 2, ring_atoms = [4, 5, 6], ring_bonds = [], ring_flags = (\<lambda>_. None), isPlaced = False\<rparr>]"

section \<open>Properties of the path edge\<close>

declare push_up.simps [simp del] push_down.simps [simp del]
  isRealPath_inner.simps [simp del] isRealPath_outer.simps [simp del]






lemma js_index_last: "xs \<noteq> [] \<Longrightarrow> js_index xs (int (length xs) - 1) = Some (last xs)"
proof -
  assume ne: "xs \<noteq> []"
  then have "nat (int (length xs) - 1) = length xs - 1" by simp
  moreover have "0 \<le> int (length xs) - 1" using ne by (cases xs) simp_all
  ultimately show ?thesis using ne by (simp add: js_index_def last_conv_nth)
qed







lemma getIntersection_cases:
  "getIntersection this (edge_atoms other) =
     (if last_atom this = first_atom other \<or> last_atom this = last_atom other
      then Inr (last_atom this)
      else if first_atom this = first_atom other \<or> first_atom this = last_atom other
      then Inr (first_atom this)
      else Inl NoIntersection)"
  by (simp add: getIntersection_def Let_def first_atom_def last_atom_def)

lemma splice_throws_iff: "splice this other = Inl e \<longleftrightarrow> getIntersection this (edge_atoms other) = Inl e"
  by (simp add: splice_def Let_def split: sum.splits)

text \<open>
  Claim C10.  When neither the first nor the last atom of one path edge equals the first or
  the last atom of the other, \<open>splice\<close> does not return \<^verbatim>\<open>null\<close>: it throws the error
  ``Couldn't splice - no intersection''.  When the two path edges do have such an endpoint
  in common, \<open>getIntersection\<close> returns an atom that is an endpoint of both, and \<open>splice\<close>
  returns without throwing.
\<close>

theorem splice_throws_without_shared_endpoint:
  "(\<not> share_endpoint this other \<longrightarrow> splice this other = Inl NoIntersection) \<and>
   (share_endpoint this other \<longrightarrow>
      (\<exists>x. getIntersection this (edge_atoms other) = Inr x \<and>
           (x = first_atom this \<or> x = last_atom this) \<and>
           (x = first_atom other \<or> x = last_atom other)) \<and>
      (\<exists>r. splice this other = Inr r))"
proof (intro conjI impI)
  assume "\<not> share_endpoint this other"
  then have "getIntersection this (edge_atoms other) = Inl NoIntersection"
    unfolding getIntersection_cases share_endpoint_def by simp
  then show "splice this other = Inl NoIntersection"
    by (simp add: splice_throws_iff)
next
  assume sh: "share_endpoint this other"
  show "\<exists>x. getIntersection this (edge_atoms other) = Inr x \<and>
           (x = first_atom this \<or> x = last_atom this) \<and>
           (x = first_atom other \<or> x = last_atom other)"
  proof (cases "last_atom this = first_atom other \<or> last_atom this = last_atom other")
    case True
    then have "getIntersection this (edge_atoms other) = Inr (last_atom this)"
      unfolding getIntersection_cases by simp
    with True show ?thesis by blast
  next
    case False
    with sh have f: "first_atom this = first_atom other \<or> first_atom this = last_atom other"
      unfolding share_endpoint_def by blast
    with False have "getIntersection this (edge_atoms other) = Inr (first_atom this)"
      unfolding getIntersection_cases by simp
    with f show ?thesis by blast
  qed
  then obtain x where "getIntersection this (edge_atoms other) = Inr x" by blast
  then have "\<forall>e. splice this other \<noteq> Inl e"
    by (simp add: splice_throws_iff)
  then show "\<exists>r. splice this other = Inr r"
    by (cases "splice this other") simp_all
qed

theorem splice_throws_without_shared_endpoint_witness:
  "\<not> share_endpoint (RingPathEdge [1, 2]) (RingPathEdge [3, 4]) \<and>
   splice (RingPathEdge [1, 2]) (RingPathEdge [3, 4]) = Inl NoIntersection \<and>
   share_endpoint (RingPathEdge [1, 2]) (RingPathEdge [3, 1]) \<and>
   getIntersection (RingPathEdge [1, 2]) (edge_atoms (RingPathEdge [3, 1])) = Inr (Some 1) \<and>
   (\<exists>r. splice (RingPathEdge [1, 2]) (RingPathEdge [3, 1]) = Inr r)"
proof -
  have n: "\<not> share_endpoint (RingPathEdge [1, 2]) (RingPathEdge [3, 4])"
    by (simp add: share_endpoint_def first_atom_def last_atom_def js_index_def)
  have s: "share_endpoint (RingPathEdge [1, 2]) (RingPathEdge [3, 1])"
    by (simp add: share_endpoint_def first_atom_def last_atom_def js_index_def)
  have g: "getIntersection (RingPathEdge [1, 2]) (edge_atoms (RingPathEdge [3, 1])) = Inr (Some 1)"
    by (simp add: getIntersection_def js_index_def)
  show ?thesis
    using n s g splice_throws_without_shared_endpoint[of "RingPathEdge [1, 2]" "RingPathEdge [3, 4]"]
      splice_throws_without_shared_endpoint[of "RingPathEdge [1, 2]" "RingPathEdge [3, 1]"]
    by blast
qed
section \<open>Properties of the coordinate generator\<close>

declare found_in_ring.simps [simp del]

subsection \<open>Flag reset and the connectivity check\<close>

lemma fold_update_atom_atoms:
  "n \<le> length (atoms m) \<Longrightarrow>
   fold (\<lambda>f. update_atom f g) [0 ..< n] m =
     m\<lparr>atoms := map g (take n (atoms m)) @ drop n (atoms m)\<rparr>"
proof (induction n)
  case 0
  then show ?case by simp
next
  case (Suc n)
  then have n: "n < length (atoms m)" by simp
  have "fold (\<lambda>f. update_atom f g) [0 ..< Suc n] m =
        update_atom n g (fold (\<lambda>f. update_atom f g) [0 ..< n] m)"
    by simp
  also have "\<dots> = update_atom n g (m\<lparr>atoms := map g (take n (atoms m)) @ drop n (atoms m)\<rparr>)"
    using Suc.IH n by simp
  also have "\<dots> = m\<lparr>atoms := map g (take (Suc n) (atoms m)) @ drop (Suc n) (atoms m)\<rparr>"
  proof -
    have len: "length (map g (take n (atoms m))) = n" using n by simp
    have d: "drop n (atoms m) = atoms m ! n # drop (Suc n) (atoms m)"
      using n by (simp add: Cons_nth_drop_Suc)
    have "(map g (take n (atoms m)) @ drop n (atoms m)) ! n = atoms m ! n"
      using len d by (simp add: nth_append)
    moreover have "(map g (take n (atoms m)) @ drop n (atoms m))[n := v] =
          map g (take n (atoms m)) @ v # drop (Suc n) (atoms m)" for v
      using len d by (simp add: list_update_append)
    ultimately show ?thesis
      using n by (simp add: update_atom_def take_Suc_conv_app_nth)
  qed
  finally show ?case .
qed

lemma reset_all_flags:
  "fold (\<lambda>f. update_atom f reset_flags) [0 ..< countAtoms m] m =
     m\<lparr>atoms := map reset_flags (atoms m)\<rparr>"
  by (simp add: fold_update_atom_atoms countAtoms_def)

lemma coord_reset_flags: "coord (reset_flags a) = coord a"
  by (simp add: reset_flags_def setFlag_def)

lemma coords_reset_flags: "coords (reset_flags a) = coords a"
  by (simp add: reset_flags_def setFlag_def)

lemma flags_reset_flags:
  "flags (reset_flags a) ISPLACED = Some False"
  "flags (reset_flags a) VISITED = Some False"
  "flags (reset_flags a) ISINRING = Some False"
  "flags (reset_flags a) ISALIPHATIC = Some False"
  by (simp_all add: reset_flags_def setFlag_def)

text \<open>
  Claim C1.  For a molecule with more than one atom whose fragment count is greater than 1,
  \<open>generate\<close> fails with the error ``Molecule not connected''.  In the molecule as it is at
  that moment no coordinate has been written: the coordinate of every atom is the one it
  had on entry, the bonds and the fragment count are unchanged, and only the four flags
  of every atom have been reset to false.
\<close>

theorem generate_disconnected_fails:
  assumes "fragmentCount molecule > 1" and "countAtoms molecule > 1"
  shows "\<exists>m. generate layout molecule = Inl (MoleculeNotConnected, m) \<and>
             map coord (atoms m) = map coord (atoms molecule) \<and>
             map coords (atoms m) = map coords (atoms molecule) \<and>
             bonds m = bonds molecule \<and> fragmentCount m = fragmentCount molecule \<and>
             (\<forall>atom \<in> set (atoms m). \<forall>flag. flags atom flag = Some False)"
proof -
  let ?m = "molecule\<lparr>atoms := map reset_flags (atoms molecule)\<rparr>"
  have "generate layout molecule = Inl (MoleculeNotConnected, ?m)"
    using assms by (simp add: generate_def reset_all_flags Let_def)
  moreover have "map coord (atoms ?m) = map coord (atoms molecule)"
    by (simp add: coord_reset_flags comp_def)
  moreover have "map coords (atoms ?m) = map coords (atoms molecule)"
    by (simp add: coords_reset_flags comp_def)
  moreover have "\<forall>atom \<in> set (atoms ?m). \<forall>flag. flags atom flag = Some False"
  proof (intro ballI allI)
    fix atom flag assume "atom \<in> set (atoms ?m)"
    then obtain a where "atom = reset_flags a" by auto
    then show "flags atom flag = Some False"
      by (cases flag) (simp_all add: flags_reset_flags)
  qed
  ultimately show ?thesis by simp
qed

theorem generate_disconnected_fails_witness:
  "fragmentCount two_fragments > 1 \<and> countAtoms two_fragments > 1 \<and>
   (\<exists>m. generate Inr two_fragments = Inl (MoleculeNotConnected, m) \<and>
        map coord (atoms m) = [None, Some (MathCoordinate 1 2)])"
proof -
  have h1: "fragmentCount two_fragments > 1" by (simp add: two_fragments_def)
  have h2: "countAtoms two_fragments > 1" by (simp add: two_fragments_def countAtoms_def)
  have c: "map coord (atoms two_fragments) = [None, Some (MathCoordinate 1 2)]"
    by (simp add: two_fragments_def)
  from generate_disconnected_fails[OF h1 h2, of Inr] c h1 h2 show ?thesis by auto
qed

subsection \<open>The single atom\<close>

text \<open>
  On every molecule of exactly one atom \<open>generate\<close> returns after the flag reset; the
  returned atom has the coordinate it had on entry in \<^verbatim>\<open>coord\<close> and the point (0,0) in
  \<^verbatim>\<open>coords\<close>.
\<close>

lemma generate_single_atom:
  assumes "countAtoms molecule = 1"
  shows "\<exists>m. generate layout molecule = Inr m \<and>
             map coord (atoms m) = map coord (atoms molecule) \<and>
             map coords (atoms m) = [Some (MathCoordinate 0 0)]"
proof -
  from assms obtain a where a: "atoms molecule = [a]"
    by (cases "atoms molecule") (simp_all add: countAtoms_def)
  let ?m = "molecule\<lparr>atoms := [reset_flags a\<lparr>coords := Some (MathCoordinate 0 0)\<rparr>]\<rparr>"
  have "generate layout molecule = Inr ?m"
    using assms a by (simp add: generate_def reset_all_flags Let_def update_atom_def)
  moreover have "map coord (atoms ?m) = map coord (atoms molecule)"
    using a by (simp add: coord_reset_flags)
  ultimately show ?thesis by simp
qed

text \<open>
  Claim C2 says that for a connected molecule of exactly one atom \<open>generate\<close> returns right
  after the flag reset with the atom's coordinate field set to the point (0,0).  The code
  returns at that point, but its assignment goes to the property \<^verbatim>\<open>coords\<close>, while the
  coordinate field read by the bond, the ring and the rest of the generator is
  \<^verbatim>\<open>coord\<close>.  On a single atom whose coordinate is (3,4) the returned molecule still
  has \<^verbatim>\<open>coord\<close> = (3,4), and (0,0) is in \<^verbatim>\<open>coords\<close>.
\<close>

theorem generate_single_atom_leaves_coord:
  "\<exists>m. generate layout single_atom = Inr m \<and>
        map coord (atoms m) = [Some (MathCoordinate 3 4)] \<and>
        map coords (atoms m) = [Some (MathCoordinate 0 0)]"
  by (simp add: generate_def single_atom_def countAtoms_def update_atom_def
      reset_flags_def setFlag_def Let_def)

subsection \<open>Seeding\<close>

lemma flagRingAtoms_id: "flagRingAtoms sssr molecule = molecule"
  unfolding flagRingAtoms_def by (induction sssr) (simp_all add: flag_ring_def)

lemma upt3: "[0 ..< 3] = [0, 1, 2]"
  by (simp add: upt_rec)

text \<open>
  Claim C5 says that for a connected molecule with \<open>bonds - atoms + 1 > 0\<close> every atom of a
  ring of the SSSR has its ISINRING flag set to true after the seeding step, and that the
  ring set placed first is one with the greatest number of rings.  The second half holds
  (\<open>largestRingset_max\<close> below).  The flagging statement calls nothing, so it leaves the
  molecule as it is (\<open>flagRingAtoms_id\<close>): on cyclopropane, \<open>generate\<close> followed by that
  statement leaves ISINRING false on the three ring atoms.
\<close>

theorem seeding_leaves_ISINRING_false:
  "int (countBonds cyclopropane) - int (countAtoms cyclopropane) + 1 > 0 \<and>
   (\<exists>m. generate (\<lambda>m. Inr (flagRingAtoms [cyclopropane_ring] m)) cyclopropane = Inr m \<and>
        map (\<lambda>a. flags (atoms m ! a) ISINRING) (ring_atoms cyclopropane_ring) =
          [Some False, Some False, Some False])"
  by (simp add: generate_def flagRingAtoms_id cyclopropane_def cyclopropane_ring_def countAtoms_def
        countBonds_def update_atom_def reset_flags_def setFlag_def Let_def upt3 unplaced_atom_def)

lemma largestRingset_max:
  assumes "largestRingset ringsets = Some rs"
  shows "rs \<in> set ringsets \<and> (\<forall>r \<in> set ringsets. length r \<le> length rs)"
proof -
  let ?s = "sort_key length ringsets"
  have ne: "?s \<noteq> []"
  proof
    assume "?s = []"
    then have "largestRingset ringsets = None"
      by (simp add: largestRingset_def Let_def js_index_def)
    with assms show False by simp
  qed
  then have "largestRingset ringsets = Some (last ?s)"
    by (simp add: largestRingset_def Let_def js_index_last del: length_sort)
  with assms have rs: "rs = last ?s" by simp
  have "last ?s \<in> set ?s" using ne by (rule last_in_set)
  then have mem: "rs \<in> set ringsets" unfolding rs by simp
  have srt: "sorted (map length ?s)" by (rule sorted_sort_key)
  have "length r \<le> length rs" if "r \<in> set ringsets" for r
  proof -
    from that have "r \<in> set ?s" by simp
    then obtain i where i: "i < length ?s" "?s ! i = r" by (metis in_set_conv_nth)
    have "map length ?s ! i \<le> map length ?s ! (length ?s - 1)"
      using srt i(1) by (intro sorted_nth_mono) simp_all
    then show ?thesis using i ne rs by (simp add: last_conv_nth)
  qed
  with mem show ?thesis by blast
qed

subsection \<open>The most complex ring\<close>

lemma upt_13: "[Suc 0 ..< 3] = [1, 2]" "[2 ..< 3] = [2]" "[3 ..< 3] = []"
  by (simp_all add: upt_rec)

lemma found_undefined: "found_in_ring ring2 None 0 = (ring_atoms ring2 \<noteq> [])"
  by (subst found_in_ring.simps) (simp add: ring_index_def)

lemma count_neighbors_three_rings: "count_neighbors three_rings = [6, 6, 6]"
  by (simp add: count_neighbors_def count_j_def count_k_def three_rings_def
      ring_index_def found_undefined upt3 upt_13 Let_def)

lemma most_complex_three: "most_complex_position [6, 6, 6] = 0"
  by (simp add: most_complex_position_def upt3)

lemma shared_three:
  "shared_ring_count three_rings 0 = 1" "shared_ring_count three_rings 1 = 2"
  "shared_ring_count three_rings 2 = 1"
  by (simp_all add: shared_ring_count_def shares_atom_def three_rings_def upt3)

text \<open>
  Claim C4 says that \<open>getMostComplexRing\<close> returns the ring that shares an atom with the
  greatest number of other rings of the set, the first such ring on a tie.  The code
  compares \<^verbatim>\<open>ring1[j]\<close> with \<^verbatim>\<open>ring2[l]\<close>, which are both \<^verbatim>\<open>undefined\<close>, so every
  ring counts as a neighbour of every other one.  In the set of three rings the middle ring
  shares an atom with two rings and the first ring with one, yet all three counters are 6
  and the first ring is returned.
\<close>

theorem getMostComplexRing_three_rings:
  "getMostComplexRing three_rings = Some (three_rings ! 0) \<and>
   shared_ring_count three_rings 0 = 1 \<and> shared_ring_count three_rings 1 = 2"
proof -
  have "getMostComplexRing three_rings = js_index three_rings 0"
    unfolding getMostComplexRing_def count_neighbors_three_rings most_complex_three by simp
  also have "\<dots> = Some (three_rings ! 0)"
    by (simp add: js_index_def three_rings_def)
  finally show ?thesis using shared_three by simp
qed

end
